theory Spec2Isabelle
  imports Main
begin

section \<open>A shallow embedding of result.hpp\<close>

text \<open>
  The header defines the class template \<open>Result<T, E>\<close>, the tag wrappers
  \<open>details::Ok<T>\<close> and \<open>details::Err<E>\<close>, the factory functions \<open>Ok\<close> and \<open>Err\<close>,
  and the macro \<open>TRY\<close>.

  Conventions of the embedding.
  \<^item> A C++ member whose name ends in an underscore loses it, since such a name is not
    an Isabelle identifier: \<open>get_t_\<close> is \<open>get_t\<close>, \<open>move_err_\<close> is \<open>move_err\<close>, \<open>rel_op_\<close>
    is \<open>rel_op\<close>; the fields \<open>t_\<close>, \<open>e_\<close> and \<open>variant_\<close> are the selectors \<open>Ok_t\<close>,
    \<open>Err_e\<close> and \<open>Result_variant\<close>. The member \<open>map\<close> is \<open>Result_map\<close>.
  \<^item> A \<open>throw\<close> is the left injection of a sum: a member function returns
    \<open>exn + \<dots>\<close>. \<open>std::get\<close> on the wrong alternative throws
    \<open>std::bad_variant_access\<close>, and that branch is kept.
  \<^item> A non-const member function returns, next to its value, the object it was called
    on as it is afterwards. Moving a payload out of the object leaves a moved-from
    payload behind; what the move constructor of \<open>T\<close> (of \<open>E\<close>) leaves in its source
    is not part of the header, so it is the parameter \<open>mvT\<close> (\<open>mvE\<close>). The value
    that arrives is the value that was moved.
  \<^item> A callable passed to a combinator may have effects: it is a function
    \<open>'a \<Rightarrow> 'w \<Rightarrow> 'b \<times> 'w\<close> on a state \<open>'w\<close> of everything it can touch, and a combinator
    that takes one also takes and returns that state. Callables return normally.
  \<^item> Where the use of a member is ill-formed C++, so that no program containing it is
    translated, the member has no run-time meaning: it returns \<open>ill_formed + \<dots>\<close>, the
    left injection being the diagnostic. The rules of C++ that decide it (binding of
    a reference, a member function called on a \<open>const\<close> object, the constructors of
    \<open>std::logic_error\<close>, a \<open>static_assert\<close>) are written out where they are used.
\<close>

subsection \<open>Exceptions\<close>

datatype exn = logic_error string | bad_variant_access

subsection \<open>Ill-formed uses\<close>

datatype ill_formed =
    invalid_reference_binding
  | discards_qualifiers
  | no_matching_function
  | static_assertion_failed string

text \<open>
  A parameter of type reference to non-const \<open>X\<close>, written \<open>X &\<close>, binds to an lvalue
  only; a reference to \<open>const X\<close> binds to a prvalue as well.
\<close>

datatype value_category = lvalue | prvalue

datatype qualification = unqualified | const_qualified

definition binds_to_lvalue_reference :: "qualification \<Rightarrow> value_category \<Rightarrow> bool" where
  "binds_to_lvalue_reference referred argument =
     (referred = const_qualified \<or> argument = lvalue)"

text \<open>
  A member function can be called on an object expression of \<open>const\<close> type only if the
  member function is declared \<open>const\<close>.
\<close>

definition callable_on :: "qualification \<Rightarrow> qualification \<Rightarrow> bool" where
  "callable_on object member = (object = unqualified \<or> member = const_qualified)"

text \<open>
  \<open>std::logic_error\<close> has two constructors that take a message, one from
  \<open>const std::string &\<close> and one from \<open>const char *\<close>. A string literal converts to the
  second; a \<open>std::string_view\<close> converts implicitly to neither, the constructor of
  \<open>std::string\<close> from it being explicit.
\<close>

datatype what_arg = arg_string_literal | arg_std_string | arg_std_string_view

definition logic_error_constructible :: "what_arg \<Rightarrow> bool" where
  "logic_error_constructible a =
     (case a of
        arg_string_literal \<Rightarrow> True
      | arg_std_string \<Rightarrow> True
      | arg_std_string_view \<Rightarrow> False)"

subsection \<open>The tag wrappers and their factories\<close>

datatype 't details_Ok = details_Ok (Ok_t: 't)

datatype 'e details_Err = details_Err (Err_e: 'e)

definition Ok :: "'t \<Rightarrow> 't details_Ok" where
  "Ok t = details_Ok t"

definition Err :: "'e \<Rightarrow> 'e details_Err" where
  "Err e = details_Err e"

subsection \<open>The class Result\<close>

text \<open>\<open>std::variant< OkT, ErrE >\<close>: alternative 0 or alternative 1.\<close>

datatype ('a, 'b) variant = Alt_0 'a | Alt_1 'b

datatype ('t, 'e) Result = Result (Result_variant: "('t details_Ok, 'e details_Err) variant")

abbreviation holding_Ok :: "'t \<Rightarrow> ('t, 'e) Result" where
  "holding_Ok t \<equiv> Result (Alt_0 (details_Ok t))"

abbreviation holding_Err :: "'e \<Rightarrow> ('t, 'e) Result" where
  "holding_Err e \<equiv> Result (Alt_1 (details_Err e))"

text \<open>
  The two converting constructors. The payload of the tag, of type \<open>U\<close> (\<open>F\<close>), initialises
  a \<open>T\<close> (an \<open>E\<close>): \<open>conv\<close> is that conversion, the identity when the types agree.
\<close>

definition Result_from_Ok :: "('u \<Rightarrow> 't) \<Rightarrow> 'u details_Ok \<Rightarrow> ('t, 'e) Result" where
  "Result_from_Ok conv ok = Result (Alt_0 (details_Ok (conv (Ok_t ok))))"

definition Result_from_Err :: "('f \<Rightarrow> 'e) \<Rightarrow> 'f details_Err \<Rightarrow> ('t, 'e) Result" where
  "Result_from_Err conv err = Result (Alt_1 (details_Err (conv (Err_e err))))"

definition is_ok :: "('t, 'e) Result \<Rightarrow> bool" where
  "is_ok self = (case Result_variant self of Alt_0 _ \<Rightarrow> True | Alt_1 _ \<Rightarrow> False)"

definition is_err :: "('t, 'e) Result \<Rightarrow> bool" where
  "is_err self = (case Result_variant self of Alt_0 _ \<Rightarrow> False | Alt_1 _ \<Rightarrow> True)"

subsection \<open>Private accessors\<close>

definition get_ok :: "('t, 'e) Result \<Rightarrow> exn + 't details_Ok" where
  "get_ok self = (case Result_variant self of Alt_0 ok \<Rightarrow> Inr ok | Alt_1 _ \<Rightarrow> Inl bad_variant_access)"

definition get_err :: "('t, 'e) Result \<Rightarrow> exn + 'e details_Err" where
  "get_err self = (case Result_variant self of Alt_0 _ \<Rightarrow> Inl bad_variant_access | Alt_1 err \<Rightarrow> Inr err)"

definition move_ok :: "('t \<Rightarrow> 't) \<Rightarrow> ('t, 'e) Result \<Rightarrow> exn + ('t details_Ok \<times> ('t, 'e) Result)" where
  "move_ok mvT self =
     (case Result_variant self of
        Alt_0 ok \<Rightarrow> Inr (details_Ok (Ok_t ok), Result (Alt_0 (details_Ok (mvT (Ok_t ok)))))
      | Alt_1 _ \<Rightarrow> Inl bad_variant_access)"

definition move_err :: "('e \<Rightarrow> 'e) \<Rightarrow> ('t, 'e) Result \<Rightarrow> exn + ('e details_Err \<times> ('t, 'e) Result)" where
  "move_err mvE self =
     (case Result_variant self of
        Alt_0 _ \<Rightarrow> Inl bad_variant_access
      | Alt_1 err \<Rightarrow> Inr (details_Err (Err_e err), Result (Alt_1 (details_Err (mvE (Err_e err))))))"

definition get_t :: "('t, 'e) Result \<Rightarrow> exn + 't" where
  "get_t self = (case get_ok self of Inl x \<Rightarrow> Inl x | Inr ok \<Rightarrow> Inr (Ok_t ok))"

definition get_e :: "('t, 'e) Result \<Rightarrow> exn + 'e" where
  "get_e self = (case get_err self of Inl x \<Rightarrow> Inl x | Inr err \<Rightarrow> Inr (Err_e err))"

definition move_t :: "('t \<Rightarrow> 't) \<Rightarrow> ('t, 'e) Result \<Rightarrow> exn + ('t \<times> ('t, 'e) Result)" where
  "move_t mvT self =
     (case get_t self of
        Inl x \<Rightarrow> Inl x
      | Inr t \<Rightarrow> Inr (t, Result (Alt_0 (details_Ok (mvT t)))))"

definition move_e :: "('e \<Rightarrow> 'e) \<Rightarrow> ('t, 'e) Result \<Rightarrow> exn + ('e \<times> ('t, 'e) Result)" where
  "move_e mvE self =
     (case get_e self of
        Inl x \<Rightarrow> Inl x
      | Inr e \<Rightarrow> Inr (e, Result (Alt_1 (details_Err (mvE e)))))"

subsection \<open>Compile-time constraints\<close>

text \<open>
  The traits \<open>std::is_invocable_r_v\<close> and \<open>std::invoke_result_t\<close> belong to the standard
  library: they are parameters, over any representation \<open>'ty\<close> of types and \<open>'fn\<close> of the
  types of callables. \<open>is_invocable_r_v R Fn A\<close> says that a \<open>Fn\<close> can be called with an
  \<open>A\<close> and that what it returns converts to \<open>R\<close>; \<open>invoke_result_t Fn A\<close> is the type
  that call returns, if it is well-formed.
\<close>

definition is_op_v :: "('ty \<Rightarrow> 'fn \<Rightarrow> 'ty \<Rightarrow> bool) \<Rightarrow> 'ty \<Rightarrow> 'fn \<Rightarrow> 'ty \<Rightarrow> bool" where
  "is_op_v is_invocable_r_v R Fn A = is_invocable_r_v R Fn A"

text \<open>
  The \<open>static_assert\<close> of \<open>map_err\<close> in \<open>Result<T, E>\<close>, on the template arguments \<open>Fn\<close>
  and \<open>F\<close>; and \<open>map_err\<close> called with a callable of type \<open>Fn\<close> only, \<open>F\<close> taking its
  default \<open>std::invoke_result_t< Fn, E >\<close>.
\<close>

definition map_err_static_assert ::
  "('ty \<Rightarrow> 'fn \<Rightarrow> 'ty \<Rightarrow> bool) \<Rightarrow> 'ty \<Rightarrow> 'ty \<Rightarrow> 'fn \<Rightarrow> 'ty \<Rightarrow> bool" where
  "map_err_static_assert is_invocable_r_v T E Fn F = is_op_v is_invocable_r_v F Fn T"

text \<open>The \<open>static_assert\<close> of \<open>unwrap_or_else\<close> in \<open>Result<T, E>\<close>, on the template argument \<open>Fn\<close>.\<close>

definition unwrap_or_else_static_assert ::
  "('ty \<Rightarrow> 'fn \<Rightarrow> 'ty \<Rightarrow> bool) \<Rightarrow> 'ty \<Rightarrow> 'ty \<Rightarrow> 'fn \<Rightarrow> bool" where
  "unwrap_or_else_static_assert is_invocable_r_v T E Fn = is_op_v is_invocable_r_v T Fn E"

definition map_err_well_formed ::
  "('fn \<Rightarrow> 'ty \<Rightarrow> 'ty option) \<Rightarrow> ('ty \<Rightarrow> 'fn \<Rightarrow> 'ty \<Rightarrow> bool) \<Rightarrow> 'ty \<Rightarrow> 'ty \<Rightarrow> 'fn \<Rightarrow> bool" where
  "map_err_well_formed invoke_result_t is_invocable_r_v T E Fn =
     (case invoke_result_t Fn E of
        None \<Rightarrow> False
      | Some F \<Rightarrow> map_err_static_assert is_invocable_r_v T E Fn F)"

subsection \<open>Extraction\<close>

definition unwrap :: "('t \<Rightarrow> 't) \<Rightarrow> ('t, 'e) Result \<Rightarrow> exn + ('t \<times> ('t, 'e) Result)" where
  "unwrap mvT self =
     (if is_ok self then move_t mvT self
      else Inl (logic_error ''Result::unwrap panicked''))"

definition unwrap_err :: "('e \<Rightarrow> 'e) \<Rightarrow> ('t, 'e) Result \<Rightarrow> exn + ('e \<times> ('t, 'e) Result)" where
  "unwrap_err mvE self =
     (if is_err self then move_e mvE self
      else Inl (logic_error ''Result::unwrawp_err panicked''))"

definition unwrap_or :: "('t \<Rightarrow> 't) \<Rightarrow> ('t, 'e) Result \<Rightarrow> 't \<Rightarrow> exn + ('t \<times> ('t, 'e) Result)" where
  "unwrap_or mvT self default_value =
     (if is_ok self then move_t mvT self
      else Inr (default_value, self))"

text \<open>
  \<open>expect\<close> and \<open>expect_err\<close> throw \<open>std::logic_error( msg )\<close>, where \<open>msg\<close> is the
  parameter of type \<open>std::string_view\<close>.
\<close>

definition expect ::
  "('t \<Rightarrow> 't) \<Rightarrow> ('t, 'e) Result \<Rightarrow> string \<Rightarrow> ill_formed + (exn + ('t \<times> ('t, 'e) Result))" where
  "expect mvT self msg =
     (if logic_error_constructible arg_std_string_view then
        Inr (if is_ok self then move_t mvT self
             else Inl (logic_error msg))
      else Inl no_matching_function)"

definition expect_err ::
  "('e \<Rightarrow> 'e) \<Rightarrow> ('t, 'e) Result \<Rightarrow> string \<Rightarrow> ill_formed + (exn + ('e \<times> ('t, 'e) Result))" where
  "expect_err mvE self msg =
     (if logic_error_constructible arg_std_string_view then
        Inr (if is_err self then move_e mvE self
             else Inl (logic_error msg))
      else Inl no_matching_function)"

subsection \<open>Transformation and chaining\<close>

definition Result_map ::
  "('t \<Rightarrow> 't) \<Rightarrow> ('e \<Rightarrow> 'e) \<Rightarrow> ('t \<Rightarrow> 'w \<Rightarrow> 'u \<times> 'w) \<Rightarrow> ('t, 'e) Result \<Rightarrow> 'w
     \<Rightarrow> exn + (('u, 'e) Result \<times> ('t, 'e) Result \<times> 'w)" where
  "Result_map mvT mvE fn self w =
     (if is_ok self then
        (case move_t mvT self of
           Inl x \<Rightarrow> Inl x
         | Inr (t, self') \<Rightarrow>
             (case fn t w of (u, w') \<Rightarrow> Inr (Result_from_Ok (\<lambda>u. u) (Ok u), self', w')))
      else
        (case move_err mvE self of
           Inl x \<Rightarrow> Inl x
         | Inr (err, self') \<Rightarrow> Inr (Result_from_Err (\<lambda>e. e) err, self', w)))"

text \<open>
  \<open>map_err\<close> in \<open>Result<T, E>\<close>, called with a callable of type \<open>Fn\<close>. \<open>T\<close>, \<open>E\<close> and \<open>Fn\<close>
  are given in the representation of types that the traits work on. The template
  argument \<open>F\<close> takes its default \<open>std::invoke_result_t< Fn, E >\<close>; if there is none the
  call has no candidate. Then the \<open>static_assert\<close> is tested; only if it holds is
  there a body to run.
\<close>

definition map_err ::
  "('fn \<Rightarrow> 'ty \<Rightarrow> 'ty option) \<Rightarrow> ('ty \<Rightarrow> 'fn \<Rightarrow> 'ty \<Rightarrow> bool) \<Rightarrow> 'ty \<Rightarrow> 'ty \<Rightarrow> 'fn
     \<Rightarrow> ('t \<Rightarrow> 't) \<Rightarrow> ('e \<Rightarrow> 'e) \<Rightarrow> ('e \<Rightarrow> 'w \<Rightarrow> 'f \<times> 'w) \<Rightarrow> ('t, 'e) Result \<Rightarrow> 'w
     \<Rightarrow> ill_formed + (exn + (('t, 'f) Result \<times> ('t, 'e) Result \<times> 'w))" where
  "map_err invoke_result_t is_invocable_r_v T E Fn mvT mvE fn self w =
     (case invoke_result_t Fn E of
        None \<Rightarrow> Inl no_matching_function
      | Some F \<Rightarrow>
          if map_err_static_assert is_invocable_r_v T E Fn F then
            Inr (if is_ok self then
                   (case move_ok mvT self of
                      Inl x \<Rightarrow> Inl x
                    | Inr (ok, self') \<Rightarrow> Inr (Result_from_Ok (\<lambda>t. t) ok, self', w))
                 else
                   (case move_e mvE self of
                      Inl x \<Rightarrow> Inl x
                    | Inr (e, self') \<Rightarrow>
                        (case fn e w of
                           (f, w') \<Rightarrow> Inr (Result_from_Err (\<lambda>f. f) (Err f), self', w'))))
          else Inl (static_assertion_failed ''Function is not of signature Fn(E) -> F''))"

definition and_then ::
  "('t \<Rightarrow> 't) \<Rightarrow> ('e \<Rightarrow> 'e) \<Rightarrow> ('t \<Rightarrow> 'w \<Rightarrow> ('u, 'e) Result \<times> 'w) \<Rightarrow> ('t, 'e) Result \<Rightarrow> 'w
     \<Rightarrow> exn + (('u, 'e) Result \<times> ('t, 'e) Result \<times> 'w)" where
  "and_then mvT mvE fn self w =
     (if is_ok self then
        (case move_t mvT self of
           Inl x \<Rightarrow> Inl x
         | Inr (t, self') \<Rightarrow> (case fn t w of (res, w') \<Rightarrow> Inr (res, self', w')))
      else
        (case move_err mvE self of
           Inl x \<Rightarrow> Inl x
         | Inr (err, self') \<Rightarrow> Inr (Result_from_Err (\<lambda>e. e) err, self', w)))"

definition or_else ::
  "('t \<Rightarrow> 't) \<Rightarrow> ('e \<Rightarrow> 'e) \<Rightarrow> ('e \<Rightarrow> 'w \<Rightarrow> ('t, 'f) Result \<times> 'w) \<Rightarrow> ('t, 'e) Result \<Rightarrow> 'w
     \<Rightarrow> exn + (('t, 'f) Result \<times> ('t, 'e) Result \<times> 'w)" where
  "or_else mvT mvE fn self w =
     (if is_ok self then
        (case move_ok mvT self of
           Inl x \<Rightarrow> Inl x
         | Inr (ok, self') \<Rightarrow> Inr (Result_from_Ok (\<lambda>t. t) ok, self', w))
      else
        (case move_e mvE self of
           Inl x \<Rightarrow> Inl x
         | Inr (e, self') \<Rightarrow> (case fn e w of (res, w') \<Rightarrow> Inr (res, self', w'))))"

text \<open>
  The expression \<open>r.map(f).map_err(g)\<close>: \<open>map_err\<close> is called on the temporary that \<open>map\<close>
  returned, in the state \<open>f\<close> left; the temporary dies with the expression. The
  temporary is a \<open>Result<U, E>\<close>, so \<open>map_err\<close> is the one of \<open>Result<U, E>\<close>: \<open>U\<close> and \<open>E\<close>
  are these types and \<open>G\<close> the type of \<open>g\<close>, as the traits see them, and \<open>mvU\<close> is what
  the move constructor of \<open>U\<close> leaves behind. The diagnostic of \<open>map_err\<close> does not
  depend on what the temporary holds.
\<close>

definition map_then_map_err ::
  "('fn \<Rightarrow> 'ty \<Rightarrow> 'ty option) \<Rightarrow> ('ty \<Rightarrow> 'fn \<Rightarrow> 'ty \<Rightarrow> bool) \<Rightarrow> 'ty \<Rightarrow> 'ty \<Rightarrow> 'fn
     \<Rightarrow> ('t \<Rightarrow> 't) \<Rightarrow> ('u \<Rightarrow> 'u) \<Rightarrow> ('e \<Rightarrow> 'e) \<Rightarrow> ('t \<Rightarrow> 'w \<Rightarrow> 'u \<times> 'w) \<Rightarrow> ('e \<Rightarrow> 'w \<Rightarrow> 'f \<times> 'w)
     \<Rightarrow> ('t, 'e) Result \<Rightarrow> 'w
     \<Rightarrow> ill_formed + (exn + (('u, 'f) Result \<times> ('t, 'e) Result \<times> 'w))" where
  "map_then_map_err invoke_result_t is_invocable_r_v U E G mvT mvU mvE f g r w =
     (case Result_map mvT mvE f r w of
        Inl x \<Rightarrow> Inr (Inl x)
      | Inr (tmp, r', w') \<Rightarrow>
          (case map_err invoke_result_t is_invocable_r_v U E G mvU mvE g tmp w' of
             Inl d \<Rightarrow> Inl d
           | Inr outcome \<Rightarrow>
               Inr (case outcome of
                      Inl x \<Rightarrow> Inl x
                    | Inr (res, _, w'') \<Rightarrow> Inr (res, r', w''))))"

subsection \<open>Relational operators\<close>

text \<open>
  \<open>std::less<>\<close>, \<open>std::greater<>\<close>, \<open>std::less_equal<>\<close>, \<open>std::greater_equal<>\<close> and
  \<open>std::equal_to<>\<close> apply the operator \<open><\<close>, \<open>>\<close>, \<open><=\<close>, \<open>>=\<close>, \<open>==\<close> of the type of
  their arguments. The operators of \<open>T\<close> and of \<open>E\<close> are not part of the header: they
  are the fields of a record, one record for each payload type, and nothing relates
  one field to another. A function object is the pair of its instance at \<open>T\<close> and its
  instance at \<open>E\<close>.
\<close>

record 'a operators =
  op_less :: "'a \<Rightarrow> 'a \<Rightarrow> bool"
  op_greater :: "'a \<Rightarrow> 'a \<Rightarrow> bool"
  op_less_equal :: "'a \<Rightarrow> 'a \<Rightarrow> bool"
  op_greater_equal :: "'a \<Rightarrow> 'a \<Rightarrow> bool"
  op_equal_to :: "'a \<Rightarrow> 'a \<Rightarrow> bool"

type_synonym ('t, 'e) function_object = "('t \<Rightarrow> 't \<Rightarrow> bool) \<times> ('e \<Rightarrow> 'e \<Rightarrow> bool)"

definition std_less :: "'t operators \<Rightarrow> 'e operators \<Rightarrow> ('t, 'e) function_object" where
  "std_less opsT opsE = (op_less opsT, op_less opsE)"

definition std_greater :: "'t operators \<Rightarrow> 'e operators \<Rightarrow> ('t, 'e) function_object" where
  "std_greater opsT opsE = (op_greater opsT, op_greater opsE)"

definition std_less_equal :: "'t operators \<Rightarrow> 'e operators \<Rightarrow> ('t, 'e) function_object" where
  "std_less_equal opsT opsE = (op_less_equal opsT, op_less_equal opsE)"

definition std_greater_equal :: "'t operators \<Rightarrow> 'e operators \<Rightarrow> ('t, 'e) function_object" where
  "std_greater_equal opsT opsE = (op_greater_equal opsT, op_greater_equal opsE)"

definition std_equal_to :: "'t operators \<Rightarrow> 'e operators \<Rightarrow> ('t, 'e) function_object" where
  "std_equal_to opsT opsE = (op_equal_to opsT, op_equal_to opsE)"
text \<open>
  \<open>rel_op_\<close> is a non-const member with the parameters \<open>ResT const& other\<close> and
  \<open>Op & op\<close>. Its body calls \<open>get_t_\<close> and \<open>get_e_\<close>, which are declared without \<open>const\<close>,
  on \<open>other\<close>, which is \<open>const\<close>. Where that call is allowed the body reads the payloads
  through the references these accessors return, and returns its value and the two
  operands as they are afterwards.
\<close>

definition rel_op ::
  "('t, 'e) Result \<Rightarrow> ('t, 'e) Result \<Rightarrow> ('t, 'e) function_object
     \<Rightarrow> ill_formed + (exn + (bool \<times> ('t, 'e) Result \<times> ('t, 'e) Result))" where
  "rel_op self other op =
     (if callable_on const_qualified unqualified then
        Inr (if is_ok self \<and> is_ok other then
               (case get_t self of
                  Inl x \<Rightarrow> Inl x
                | Inr a \<Rightarrow>
                    (case get_t other of
                       Inl x \<Rightarrow> Inl x
                     | Inr b \<Rightarrow> Inr (fst op a b, self, other)))
             else if is_err self \<and> is_err other then
               (case get_e self of
                  Inl x \<Rightarrow> Inl x
                | Inr a \<Rightarrow>
                    (case get_e other of
                       Inl x \<Rightarrow> Inl x
                     | Inr b \<Rightarrow> Inr (snd op a b, self, other)))
             else Inr (is_ok self, self, other))
      else Inl discards_qualifiers)"

text \<open>
  Each operator passes a function object that it has just constructed, a prvalue
  such as \<open>std::less<>()\<close>, for the parameter \<open>Op & op\<close> of \<open>rel_op_\<close>, with \<open>Op\<close> deduced
  as the type of the function object, which is not \<open>const\<close>.
\<close>

definition operator_less ::
  "'t operators \<Rightarrow> 'e operators \<Rightarrow> ('t, 'e) Result \<Rightarrow> ('t, 'e) Result
     \<Rightarrow> ill_formed + (exn + (bool \<times> ('t, 'e) Result \<times> ('t, 'e) Result))" where
  "operator_less opsT opsE self other =
     (if binds_to_lvalue_reference unqualified prvalue
      then rel_op self other (std_less opsT opsE)
      else Inl invalid_reference_binding)"

definition operator_greater ::
  "'t operators \<Rightarrow> 'e operators \<Rightarrow> ('t, 'e) Result \<Rightarrow> ('t, 'e) Result
     \<Rightarrow> ill_formed + (exn + (bool \<times> ('t, 'e) Result \<times> ('t, 'e) Result))" where
  "operator_greater opsT opsE self other =
     (if binds_to_lvalue_reference unqualified prvalue
      then rel_op self other (std_greater opsT opsE)
      else Inl invalid_reference_binding)"

definition operator_less_equal ::
  "'t operators \<Rightarrow> 'e operators \<Rightarrow> ('t, 'e) Result \<Rightarrow> ('t, 'e) Result
     \<Rightarrow> ill_formed + (exn + (bool \<times> ('t, 'e) Result \<times> ('t, 'e) Result))" where
  "operator_less_equal opsT opsE self other =
     (if binds_to_lvalue_reference unqualified prvalue
      then rel_op self other (std_less_equal opsT opsE)
      else Inl invalid_reference_binding)"

definition operator_greater_equal ::
  "'t operators \<Rightarrow> 'e operators \<Rightarrow> ('t, 'e) Result \<Rightarrow> ('t, 'e) Result
     \<Rightarrow> ill_formed + (exn + (bool \<times> ('t, 'e) Result \<times> ('t, 'e) Result))" where
  "operator_greater_equal opsT opsE self other =
     (if binds_to_lvalue_reference unqualified prvalue
      then rel_op self other (std_greater_equal opsT opsE)
      else Inl invalid_reference_binding)"

definition operator_equal_to ::
  "'t operators \<Rightarrow> 'e operators \<Rightarrow> ('t, 'e) Result \<Rightarrow> ('t, 'e) Result
     \<Rightarrow> ill_formed + (exn + (bool \<times> ('t, 'e) Result \<times> ('t, 'e) Result))" where
  "operator_equal_to opsT opsE self other =
     (if binds_to_lvalue_reference unqualified prvalue
      then rel_op self other (std_equal_to opsT opsE)
      else Inl invalid_reference_binding)"

subsection \<open>The macro TRY\<close>

text \<open>
  \<open>TRY\<close> expands to a statement expression. It either executes \<open>return\<close> with an
  operand, which leaves the enclosing function at once (\<open>Return\<close>), or has a value,
  with which the enclosing function goes on (\<open>Value\<close>). \<open>res\<close> is the local variable
  of the expansion; it dies with it.
\<close>

datatype ('r, 'v) statement_expression = Return 'r | Value 'v

definition TRY ::
  "('t \<Rightarrow> 't) \<Rightarrow> ('e \<Rightarrow> 'e) \<Rightarrow> ('t, 'e) Result \<Rightarrow> exn + ('e, 't) statement_expression" where
  "TRY mvT mvE res =
     (if is_err res then
        (case unwrap_err mvE res of
           Inl x \<Rightarrow> Inl x
         | Inr (e, _) \<Rightarrow> Inr (Return e))
      else
        (case unwrap mvT res of
           Inl x \<Rightarrow> Inl x
         | Inr (t, _) \<Rightarrow> Inr (Value t)))"

subsection \<open>The traits on two types\<close>

text \<open>
  The traits on two types, \<open>int\<close> and \<open>std::string\<close>, neither of which converts to the
  other, and on callables with one parameter of type \<open>P\<close> that return an \<open>R\<close>, such as
  the lambda \<open>[](std::string s) -> int { return s.size(); }\<close>, which is
  \<open>Callable std_string cpp_int\<close>.
\<close>

datatype cpp_type = cpp_int | std_string

datatype callable_type = Callable cpp_type cpp_type

fun invoke_result_t :: "callable_type \<Rightarrow> cpp_type \<Rightarrow> cpp_type option" where
  "invoke_result_t (Callable P R) A = (if A = P then Some R else None)"

fun is_invocable_r_v :: "cpp_type \<Rightarrow> callable_type \<Rightarrow> cpp_type \<Rightarrow> bool" where
  "is_invocable_r_v R' (Callable P R) A = (A = P \<and> R = R')"

section \<open>Properties\<close>

subsection \<open>Accessors on a known alternative\<close>

lemma is_ok_simps:
  "is_ok (holding_Ok t)" "\<not> is_ok (holding_Err e)"
  by (simp_all add: is_ok_def)

lemma is_err_simps:
  "\<not> is_err (holding_Ok t)" "is_err (holding_Err e)"
  by (simp_all add: is_err_def)

lemma is_err_iff_not_is_ok: "is_err self = (\<not> is_ok self)"
  by (cases self; cases "Result_variant self") (simp_all add: is_ok_def is_err_def)

lemma Result_cases:
  obtains (Success) t where "self = holding_Ok t" | (Failure) e where "self = holding_Err e"
proof (cases self)
  case (Result v)
  show thesis
  proof (cases v)
    case (Alt_0 ok)
    with Result have "self = holding_Ok (Ok_t ok)" by simp
    then show thesis by (rule Success)
  next
    case (Alt_1 err)
    with Result have "self = holding_Err (Err_e err)" by simp
    then show thesis by (rule Failure)
  qed
qed

lemma move_t_holding_Ok: "move_t mvT (holding_Ok t) = Inr (t, holding_Ok (mvT t))"
  by (simp add: move_t_def get_t_def get_ok_def)

lemma move_e_holding_Err: "move_e mvE (holding_Err e) = Inr (e, holding_Err (mvE e))"
  by (simp add: move_e_def get_e_def get_err_def)

lemma move_ok_holding_Ok: "move_ok mvT (holding_Ok t) = Inr (details_Ok t, holding_Ok (mvT t))"
  by (simp add: move_ok_def)

lemma move_err_holding_Err: "move_err mvE (holding_Err e) = Inr (details_Err e, holding_Err (mvE e))"
  by (simp add: move_err_def)

subsection \<open>Construction and extraction\<close>

lemma Result_from_Ok_conv: "Result_from_Ok conv (Ok u) = holding_Ok (conv u)"
  by (simp add: Result_from_Ok_def Ok_def)

lemma Result_from_Err_conv: "Result_from_Err conv (Err f) = holding_Err (conv f)"
  by (simp add: Result_from_Err_def Err_def)

text \<open>
  C1. A \<open>Result<T, E>\<close> constructed from \<open>Ok(t)\<close> answers \<open>true\<close> to \<open>is_ok()\<close> and \<open>false\<close>
  to \<open>is_err()\<close>, and \<open>unwrap()\<close> returns \<open>t\<close> (leaving the moved-from payload in the
  object); a \<open>Result<T, E>\<close> constructed from \<open>Err(e)\<close> answers \<open>true\<close> to \<open>is_err()\<close>, and
  \<open>unwrap_err()\<close> returns \<open>e\<close>.
\<close>

theorem Ok_Err_construction:
  "is_ok (Result_from_Ok (\<lambda>u. u) (Ok t))
   \<and> \<not> is_err (Result_from_Ok (\<lambda>u. u) (Ok t))
   \<and> unwrap mvT (Result_from_Ok (\<lambda>u. u) (Ok t)) = Inr (t, holding_Ok (mvT t))
   \<and> is_err (Result_from_Err (\<lambda>f. f) (Err e))
   \<and> unwrap_err mvE (Result_from_Err (\<lambda>f. f) (Err e)) = Inr (e, holding_Err (mvE e))"
  by (simp add: Result_from_Ok_conv Result_from_Err_conv unwrap_def unwrap_err_def
      is_ok_simps is_err_simps move_t_holding_Ok move_e_holding_Err)

lemma unwrap_holding:
  "unwrap mvT (holding_Ok t) = Inr (t, holding_Ok (mvT t))"
  "unwrap mvT (holding_Err e) = Inl (logic_error ''Result::unwrap panicked'')"
  by (simp_all add: unwrap_def is_ok_simps move_t_holding_Ok)

lemma unwrap_err_holding:
  "unwrap_err mvE (holding_Ok t) = Inl (logic_error ''Result::unwrawp_err panicked'')"
  "unwrap_err mvE (holding_Err e) = Inr (e, holding_Err (mvE e))"
  by (simp_all add: unwrap_err_def is_err_simps move_e_holding_Err)

text \<open>
  C8. \<open>unwrap()\<close> throws if and only if the object holds the failure, \<open>unwrap_err()\<close> if
  and only if it holds the success, and what they throw is a \<open>std::logic_error\<close> with a
  fixed message: a signal outside the returned value, never an \<open>E\<close>. \<open>expect(msg)\<close> and
  \<open>expect_err(msg)\<close> do not behave like them with the message of the caller: on no
  object and with no message do they return or throw anything, because the
  \<open>std::logic_error\<close> they would throw cannot be constructed from the
  \<open>std::string_view\<close> they are given.
\<close>

theorem unwrap_panics_expect_ill_formed:
  "((\<exists>x. unwrap mvT self = Inl x) = is_err self)
   \<and> ((unwrap mvT self = Inl (logic_error ''Result::unwrap panicked'')) = is_err self)
   \<and> ((\<exists>x. unwrap_err mvE self = Inl x) = is_ok self)
   \<and> ((unwrap_err mvE self = Inl (logic_error ''Result::unwrawp_err panicked'')) = is_ok self)
   \<and> expect mvT self msg = Inl no_matching_function
   \<and> expect_err mvE self msg = Inl no_matching_function"
  by (cases self rule: Result_cases)
    (simp_all add: unwrap_holding unwrap_err_holding expect_def expect_err_def
      logic_error_constructible_def is_ok_simps is_err_simps)

text \<open>
  C9. \<open>unwrap_or(d)\<close> returns the held success payload when the object holds the
  success, and \<open>d\<close> when it holds the failure; in the second case the object, and so
  its failure payload, is left as it was. It throws in neither case.
\<close>

theorem unwrap_or_total:
  fixes self :: "('t, 'e) Result" and e :: 'e
  shows "unwrap_or mvT (holding_Ok t) d = Inr (t, holding_Ok (mvT t))
   \<and> unwrap_or mvT (holding_Err e) d = Inr (d, holding_Err e)
   \<and> (\<exists>v self'. unwrap_or mvT self d = Inr (v, self'))"
proof -
  have ok: "unwrap_or mvT (holding_Ok t') d = Inr (t', holding_Ok (mvT t'))" for t'
    by (simp add: unwrap_or_def is_ok_simps move_t_holding_Ok)
  have err: "unwrap_or mvT (holding_Err e') d = Inr (d, holding_Err e')" for e' :: 'e
    by (simp add: unwrap_or_def is_ok_simps)
  have "\<exists>v self'. unwrap_or mvT self d = Inr (v, self')"
    by (cases self rule: Result_cases) (simp_all add: ok err)
  with ok err show ?thesis by simp
qed

subsection \<open>Transformation\<close>

text \<open>
  C5. On an object holding the failure \<open>e\<close>, \<open>map(fn)\<close> returns a \<open>Result<U, E>\<close> holding
  the failure \<open>e\<close>, whatever \<open>fn\<close> is, and the state \<open>fn\<close> could have changed is the one
  before the call: \<open>fn\<close> is not invoked. On an object holding the success \<open>t\<close>, it returns
  a \<open>Result<U, E>\<close> holding the success \<open>fn(t)\<close>, \<open>fn\<close> having run once on the moved payload.
\<close>

theorem map_preserves_failure:
  "Result_map mvT mvE fn (holding_Err e) w = Inr (holding_Err e, holding_Err (mvE e), w)
   \<and> Result_map mvT mvE fn (holding_Ok t) w =
       Inr (holding_Ok (fst (fn t w)), holding_Ok (mvT t), snd (fn t w))"
  by (simp add: Result_map_def is_ok_simps move_t_holding_Ok move_err_holding_Err
      Result_from_Ok_conv Result_from_Err_def split: prod.split)

text \<open>
  Where the \<open>static_assert\<close> of \<open>map_err\<close> holds, \<open>map_err(fn)\<close> leaves a success as it is,
  without invoking \<open>fn\<close>, and turns the failure \<open>e\<close> into the failure \<open>fn(e)\<close>.
\<close>

lemma map_err_holding:
  assumes "invoke_result_t Fn E = Some F"
    and "map_err_static_assert is_invocable_r_v T E Fn F"
  shows "map_err invoke_result_t is_invocable_r_v T E Fn mvT mvE fn (holding_Ok t) w =
      Inr (Inr (holding_Ok t, holding_Ok (mvT t), w))"
    and "map_err invoke_result_t is_invocable_r_v T E Fn mvT mvE fn (holding_Err e) w =
      Inr (Inr (holding_Err (fst (fn e w)), holding_Err (mvE e), snd (fn e w)))"
  using assms
  by (simp_all add: map_err_def is_ok_simps move_ok_holding_Ok move_e_holding_Err
      Result_from_Err_conv Result_from_Ok_def split: prod.split)

lemma map_err_rejected:
  assumes "invoke_result_t Fn E = Some F"
    and "\<not> map_err_static_assert is_invocable_r_v T E Fn F"
  shows "map_err invoke_result_t is_invocable_r_v T E Fn mvT mvE fn self w =
      Inl (static_assertion_failed ''Function is not of signature Fn(E) -> F'')"
  using assms by (simp add: map_err_def)

subsection \<open>Chaining\<close>

text \<open>
  C6. On an object holding the failure \<open>e\<close>, \<open>and_then(fn)\<close> returns a \<open>Result<U, E>\<close>
  holding the failure \<open>e\<close> and does not invoke \<open>fn\<close>; on an object holding the success
  \<open>t\<close>, \<open>or_else(fn)\<close> returns a \<open>Result<T, F>\<close> holding the success \<open>t\<close> and does not
  invoke \<open>fn\<close>. On the other side each returns what \<open>fn\<close> returns on the moved payload.
\<close>

theorem chaining_short_circuit:
  "and_then mvT mvE fn (holding_Err e) w = Inr (holding_Err e, holding_Err (mvE e), w)
   \<and> or_else mvT mvE gn (holding_Ok t) w = Inr (holding_Ok t, holding_Ok (mvT t), w)
   \<and> and_then mvT mvE fn (holding_Ok t) w = Inr (fst (fn t w), holding_Ok (mvT t), snd (fn t w))
   \<and> or_else mvT mvE gn (holding_Err e) w = Inr (fst (gn e w), holding_Err (mvE e), snd (gn e w))"
  by (simp add: and_then_def or_else_def is_ok_simps move_t_holding_Ok move_e_holding_Err
      move_ok_holding_Ok move_err_holding_Err Result_from_Ok_def Result_from_Err_def
      split: prod.split)

subsection \<open>Round trip\<close>

lemma Result_map_holding:
  "Result_map mvT mvE f (holding_Ok t) w =
     Inr (holding_Ok (fst (f t w)), holding_Ok (mvT t), snd (f t w))"
  "Result_map mvT mvE f (holding_Err e) w = Inr (holding_Err e, holding_Err (mvE e), w)"
  by (simp_all add: Result_map_def is_ok_simps move_t_holding_Ok move_err_holding_Err
      Result_from_Ok_conv Result_from_Err_def split: prod.split)

text \<open>
  Where the \<open>static_assert\<close> of \<open>map_err\<close> in \<open>Result<U, E>\<close> holds of the type of \<open>g\<close>,
  that is where \<open>g\<close> can also be called with a \<open>U\<close>, the round trip is the one of the
  specification.
\<close>

lemma map_then_map_err_accepted:
  assumes "invoke_result_t G E = Some F"
    and "map_err_static_assert is_invocable_r_v U E G F"
  shows "map_then_map_err invoke_result_t is_invocable_r_v U E G mvT mvU mvE f g (holding_Ok t) w =
      Inr (Inr (holding_Ok (fst (f t w)), holding_Ok (mvT t), snd (f t w)))"
    and "map_then_map_err invoke_result_t is_invocable_r_v U E G mvT mvU mvE f g (holding_Err e) w =
      Inr (Inr (holding_Err (fst (g e w)), holding_Err (mvE e), snd (g e w)))"
  by (simp_all add: map_then_map_err_def Result_map_holding map_err_holding [OF assms])

text \<open>
  C7. With \<open>r\<close> a \<open>Result<int, std::string>\<close>, \<open>f\<close> from \<open>int\<close> to \<open>int\<close> and \<open>g\<close> from
  \<open>std::string\<close> to \<open>int\<close>, the expression \<open>r.map(f).map_err(g)\<close> is neither
  \<open>Success(f(t))\<close> nor \<open>Failure(g(e))\<close>, whatever \<open>r\<close> holds: the \<open>static_assert\<close> of
  \<open>map_err\<close> tests \<open>g\<close> on the success type \<open>int\<close> of the temporary, fails, and the
  expression is rejected.
\<close>

theorem map_then_map_err_rejected:
  fixes r :: "(int, string) Result"
    and f :: "int \<Rightarrow> 'w \<Rightarrow> int \<times> 'w"
    and g :: "string \<Rightarrow> 'w \<Rightarrow> int \<times> 'w"
  shows "map_then_map_err invoke_result_t is_invocable_r_v cpp_int std_string
      (Callable std_string cpp_int) mvT mvU mvE f g r w =
    Inl (static_assertion_failed ''Function is not of signature Fn(E) -> F'')"
proof -
  have rejected: "map_err invoke_result_t is_invocable_r_v cpp_int std_string
      (Callable std_string cpp_int) mvU mvE g tmp w' =
    Inl (static_assertion_failed ''Function is not of signature Fn(E) -> F'')"
    for tmp :: "(int, string) Result" and w'
    by (rule map_err_rejected [where F = cpp_int])
      (simp_all add: map_err_static_assert_def is_op_v_def)
  show ?thesis
    by (cases r rule: Result_cases)
      (simp_all add: map_then_map_err_def Result_map_holding rejected)
qed

subsection \<open>Relational operators\<close>

text \<open>
  C2. For no two operands does any of \<open><\<close>, \<open>>\<close>, \<open><=\<close>, \<open>>=\<close>, \<open>==\<close> return the result of
  an operator of \<open>T\<close> or of \<open>E\<close>, or \<open>is_ok()\<close> of the left operand: each passes a
  prvalue for the parameter \<open>Op & op\<close> of \<open>rel_op_\<close>, to which it cannot be bound, so
  the operator is rejected when it is used.
\<close>

theorem relational_operators_ill_formed:
  "operator_less opsT opsE self other = Inl invalid_reference_binding
   \<and> operator_greater opsT opsE self other = Inl invalid_reference_binding
   \<and> operator_less_equal opsT opsE self other = Inl invalid_reference_binding
   \<and> operator_greater_equal opsT opsE self other = Inl invalid_reference_binding
   \<and> operator_equal_to opsT opsE self other = Inl invalid_reference_binding"
  by (simp add: operator_less_def operator_greater_def operator_less_equal_def
      operator_greater_equal_def operator_equal_to_def binds_to_lvalue_reference_def)


subsection \<open>The macro TRY\<close>

text \<open>
  C3. On an object holding the failure \<open>e\<close>, the expansion of \<open>TRY\<close> executes \<open>return\<close>,
  and the operand of that \<open>return\<close> is the payload \<open>e\<close> itself, a value of type \<open>E\<close>: it
  is not wrapped by \<open>Err\<close>, which is what the converting constructor of the \<open>Result\<close>
  of the enclosing function takes. On an object holding the success \<open>t\<close> the expansion
  has the value \<open>t\<close>.
\<close>

theorem TRY_returns_bare_payload:
  "TRY mvT mvE (Result_from_Err (\<lambda>e. e) (Err e)) = Inr (Return e)
   \<and> TRY mvT mvE (Result_from_Ok (\<lambda>t. t) (Ok t)) = Inr (Value t)"
  by (simp add: TRY_def Result_from_Ok_conv Result_from_Err_conv is_err_simps
      unwrap_holding unwrap_err_holding)

subsection \<open>The constraint on the argument of map_err\<close>

text \<open>
  C4. In a \<open>Result<int, std::string>\<close>, a callable that takes a \<open>std::string\<close> and returns
  an \<open>int\<close> has the signature \<open>Fn(E) -> F\<close> that the message of the \<open>static_assert\<close> of
  \<open>map_err\<close> asks for, with \<open>F = int\<close>, and it passes the \<open>static_assert\<close> of
  \<open>unwrap_or_else\<close>, which tests it on \<open>E\<close>. The \<open>static_assert\<close> of \<open>map_err\<close> tests the
  callable on \<open>T\<close> instead of \<open>E\<close>, so it fails, and \<open>map_err\<close> on that callable is not
  well-formed.
\<close>

theorem map_err_static_assert_rejects_documented_signature:
  "invoke_result_t (Callable std_string cpp_int) std_string = Some cpp_int
   \<and> is_op_v is_invocable_r_v cpp_int (Callable std_string cpp_int) std_string
   \<and> unwrap_or_else_static_assert is_invocable_r_v cpp_int std_string
         (Callable std_string cpp_int)
   \<and> \<not> map_err_static_assert is_invocable_r_v cpp_int std_string
         (Callable std_string cpp_int) cpp_int
   \<and> \<not> map_err_well_formed invoke_result_t is_invocable_r_v cpp_int std_string
         (Callable std_string cpp_int)"
  by (simp add: is_op_v_def map_err_static_assert_def map_err_well_formed_def
      unwrap_or_else_static_assert_def)

subsection \<open>Examples\<close>

text \<open>
  \<open>Result<int, std::string> r = Ok(5); r.map([](int x){ return x * 2; }).unwrap()\<close> is
  \<open>10\<close>, and with \<open>r = Err("bad")\<close> the same \<open>map\<close> followed by \<open>unwrap_err()\<close> is \<open>"bad"\<close>.
  The lambda has no effects: the state is \<open>()\<close>. A moved-from \<open>int\<close> keeps its value,
  a moved-from \<open>std::string\<close> is taken to be empty.
\<close>

lemma example_map_unwrap:
  "(case Result_map (\<lambda>x. x) (\<lambda>s. []) (\<lambda>x w. (x * 2, w)) (Result_from_Ok (\<lambda>x. x) (Ok (5 :: int))) () of
      Inl x \<Rightarrow> Inl x
    | Inr (tmp :: (int, string) Result, _, _) \<Rightarrow> unwrap (\<lambda>x. x) tmp)
   = Inr (10, holding_Ok 10)"
  by (simp add: Result_map_def Result_from_Ok_conv is_ok_simps move_t_holding_Ok unwrap_holding)

lemma example_map_unwrap_err:
  "(case Result_map (\<lambda>x. x) (\<lambda>s. []) (\<lambda>x w. (x * 2, w)) (Result_from_Err (\<lambda>x. x) (Err ''bad'')) () of
      Inl x \<Rightarrow> Inl x
    | Inr (tmp :: (int, string) Result, _, _) \<Rightarrow> unwrap_err (\<lambda>s. []) tmp)
   = Inr (''bad'', holding_Err [])"
  by (simp add: Result_map_def Result_from_Err_def Err_def is_ok_simps
      move_err_holding_Err unwrap_err_holding)

text \<open>
  Extraction moves: a second \<open>unwrap_err()\<close> on the same object finds the moved-from
  payload, and the alternative is still the failure. A comparison changes nothing.
\<close>

lemma example_unwrap_err_twice:
  "(case unwrap_err (\<lambda>s. []) (holding_Err ''bad'' :: (int, string) Result) of
      Inl x \<Rightarrow> Inl x
    | Inr (_, r') \<Rightarrow> unwrap_err (\<lambda>s. []) r')
   = Inr ([], holding_Err [])"
  by (simp add: unwrap_err_holding)

text \<open>
  In a \<open>Result<int, int>\<close> a callable from \<open>int\<close> to \<open>int\<close> passes the \<open>static_assert\<close> of
  \<open>map_err\<close>, and \<open>r.map(f).map_err(g)\<close> with \<open>r = Err(3)\<close>, \<open>f\<close> doubling and \<open>g\<close> negating is
  the failure \<open>-3\<close>.
\<close>

lemma example_round_trip_int_int:
  "map_then_map_err invoke_result_t is_invocable_r_v cpp_int cpp_int (Callable cpp_int cpp_int)
     (\<lambda>x. x) (\<lambda>x. x) (\<lambda>x. x) (\<lambda>x w. (x * 2, w)) (\<lambda>e w. (- e, w))
     (holding_Err 3 :: (int, int) Result) ()
   = Inr (Inr (holding_Err (- 3), holding_Err 3, ()))"
  by (simp add: map_then_map_err_accepted(2) [where F = cpp_int]
      map_err_static_assert_def is_op_v_def)

end
